theory Spec2Isabelle
  imports Main
begin

section \<open>Deferred values\<close>

text \<open>
  Names and ARNs are not known when a trigger is declared. A deferred string is the list
  of its fragments: literal text and references that the templating engine resolves at
  deployment (the \<^verbatim>\<open>Fn::Join\<close> of literals and \<^verbatim>\<open>Ref\<close>s that the test
  suite compares against).
\<close>

datatype fragment = Lit string | Ref string

type_synonym deferred = "fragment list"

fun resolveFragment :: "(string \<Rightarrow> string) \<Rightarrow> fragment \<Rightarrow> string" where
  "resolveFragment env (Lit s) = s"
| "resolveFragment env (Ref r) = env r"

definition resolveDeferred :: "(string \<Rightarrow> string) \<Rightarrow> deferred \<Rightarrow> string" where
  "resolveDeferred env d = concat (map (resolveFragment env) d)"

text \<open>The \<^verbatim>\<open>any\<close> values of the source (actions, predicate) are opaque JSON.\<close>

datatype json =
    JNull
  | JBool bool
  | JNum int
  | JStr string
  | JArr "json list"
  | JObj "(string \<times> json) list"

section \<open>ARN formatting\<close>

record ArnComponents =
  service :: string
  resource :: string
  resourceName :: deferred

text \<open>
  Modelled from the spec: \<^verbatim>\<open>cdk.Stack.formatArn\<close> is not among the sources. The
  spec gives its result for the Glue trigger as
  \<^verbatim>\<open>arn:{partition}:glue:{region}:{account}:trigger/{name}\<close>, and the test suite
  as the join of \<^verbatim>\<open>arn:\<close>, the partition reference, \<^verbatim>\<open>:glue:\<close>, the region
  reference, \<^verbatim>\<open>:\<close>, the account reference, \<^verbatim>\<open>:trigger/\<close> and the name; the
  service and the resource type are the two components the caller passes.
\<close>

definition formatArn :: "ArnComponents \<Rightarrow> deferred" where
  "formatArn c =
     [Lit ''arn:'', Ref ''AWS::Partition'', Lit ('':'' @ service c @ '':''),
      Ref ''AWS::Region'', Lit '':'', Ref ''AWS::AccountId'',
      Lit ('':'' @ resource c @ ''/'')] @ resourceName c"

text \<open>\<^verbatim>\<open>triggeerArn\<close> of \<^verbatim>\<open>lib/trigger.ts\<close> (the scope only selects the stack).\<close>

definition triggeerArn :: "deferred \<Rightarrow> deferred" where
  "triggeerArn jobName =
     formatArn \<lparr>service = ''glue'', resource = ''trigger'', resourceName = jobName\<rparr>"

text \<open>The environment of the spec's concrete scenario.\<close>

definition scenarioEnv :: "string \<Rightarrow> string" where
  "scenarioEnv r =
     (if r = ''AWS::Partition'' then ''aws''
      else if r = ''AWS::Region'' then ''us-east-1''
      else if r = ''AWS::AccountId'' then ''123456789012''
      else r)"

section \<open>Enumerations\<close>

text \<open>
  \<^verbatim>\<open>TriggerType\<close> of \<^verbatim>\<open>lib/trigger.ts\<close>: a class with a private constructor and
  four static instances, each holding its \<^verbatim>\<open>name\<close>.
\<close>

datatype TriggerType = Scheduled | JobEvents | onDemand | conditional

fun TriggerType_name :: "TriggerType \<Rightarrow> string" where
  "TriggerType_name Scheduled = ''SCHEDULED''"
| "TriggerType_name JobEvents = ''JOB_EVENTS''"
| "TriggerType_name onDemand = ''ON_DEMAND''"
| "TriggerType_name conditional = ''CONDITIONAL''"

text \<open>\<^verbatim>\<open>enum TriggerType\<close> of \<^verbatim>\<open>part_001\<close>: the variants and their string values.\<close>

datatype TriggerType_enum = SCHEDULED | EVENT | ON_DEMAND | CONDITIONAL

fun TriggerType_enum_variant :: "TriggerType_enum \<Rightarrow> string" where
  "TriggerType_enum_variant SCHEDULED = ''SCHEDULED''"
| "TriggerType_enum_variant EVENT = ''EVENT''"
| "TriggerType_enum_variant ON_DEMAND = ''ON_DEMAND''"
| "TriggerType_enum_variant CONDITIONAL = ''CONDITIONAL''"

fun TriggerType_enum_token :: "TriggerType_enum \<Rightarrow> string" where
  "TriggerType_enum_token SCHEDULED = ''SCHEDULED''"
| "TriggerType_enum_token EVENT = ''EVENT''"
| "TriggerType_enum_token ON_DEMAND = ''ON_DEMAND''"
| "TriggerType_enum_token CONDITIONAL = ''CONDITIONAL''"

text \<open>
  \<^verbatim>\<open>enum TriggerState\<close> of \<^verbatim>\<open>part_001\<close>, in the order of the source;
  \<^verbatim>\<open>lib/trigger.ts\<close> has its first four variants with the same values.
  \<open>TriggerState_variant\<close> is the identifier on the left of each \<^verbatim>\<open>=\<close>,
  \<open>TriggerState_token\<close> the string on its right.
\<close>

datatype TriggerState =
    CREATED | ACTIVATED | DEACTIVATED | ACTIVATING
  | CREATING | DEACTIVATING | DELETING | UPDATING

fun TriggerState_variant :: "TriggerState \<Rightarrow> string" where
  "TriggerState_variant CREATED = ''CREATED''"
| "TriggerState_variant ACTIVATED = ''ACTIVATED''"
| "TriggerState_variant DEACTIVATED = ''DEACTIVATED''"
| "TriggerState_variant ACTIVATING = ''ACTIVATING''"
| "TriggerState_variant CREATING = ''CREATING''"
| "TriggerState_variant DEACTIVATING = ''DEACTIVATING''"
| "TriggerState_variant DELETING = ''DELETING''"
| "TriggerState_variant UPDATING = ''UPDATING''"

fun TriggerState_token :: "TriggerState \<Rightarrow> string" where
  "TriggerState_token CREATED = ''CREATED''"
| "TriggerState_token ACTIVATED = '' ACTIVATED''"
| "TriggerState_token DEACTIVATED = ''DEACTIVATED''"
| "TriggerState_token ACTIVATING = ''ACTIVATING''"
| "TriggerState_token CREATING = ''CREATING''"
| "TriggerState_token DEACTIVATING = ''DEACTIVATING''"
| "TriggerState_token DELETING = ''DELETING''"
| "TriggerState_token UPDATING = ''UPDATING''"

text \<open>\<^verbatim>\<open>enum triggerState\<close> of \<^verbatim>\<open>part_000\<close>: the job states its event rules match.\<close>

datatype triggerState = SUCCEEDED | FAILED | TIMEOUT | STARTING | RUNNING | STOPPING | STOPPED

fun triggerState_token :: "triggerState \<Rightarrow> string" where
  "triggerState_token SUCCEEDED = ''SUCCEEDED''"
| "triggerState_token FAILED = ''FAILED''"
| "triggerState_token TIMEOUT = ''TIMEOUT''"
| "triggerState_token STARTING = ''STARTING''"
| "triggerState_token RUNNING = ''RUNNING''"
| "triggerState_token STOPPING = ''STOPPING''"
| "triggerState_token STOPPED = ''STOPPED''"

section \<open>Collaborators: roles, schedules, event rules, the scope tree\<close>

datatype ManagedPolicy = AwsManagedPolicy string

datatype IRole = ImportedRole string | ConstructRole "string list"

text \<open>A role is a principal: \<open>RolePrincipal\<close> is the upcast of the assignment.\<close>

datatype IPrincipal = ServicePrincipal string | RolePrincipal IRole

record RoleProps =
  assumedBy :: IPrincipal
  managedPolicies :: "ManagedPolicy list"

record Schedule =
  expressionString :: string

text \<open>The record handed to \<^verbatim>\<open>CfnTrigger\<close>, field for field as the constructors fill it.\<close>

record CfnTriggerProps =
  cfn_workflowName :: "string option"
  cfn_tags :: "(string \<times> string) list option"
  cfn_startOnCreation :: "bool option"
  cfn_schedule :: "string option"
  cfn_predicate :: "json option"
  cfn_name :: "string option"
  cfn_actions :: "json list"
  cfn_description :: "string option"
  cfn_type :: string

record EventPattern =
  source :: "string list"
  detailType :: "string list"
  detail :: "(string \<times> deferred list) list"

record OnEventOptions =
  opt_description :: "deferred option"
  opt_eventPattern :: "EventPattern option"
  opt_ruleName :: "string option"
  opt_target :: "string option"

record Rule =
  rule_description :: "deferred option"
  rule_ruleName :: "string option"
  rule_targets :: "string list"
  rule_eventPattern :: EventPattern

text \<open>
  A node of the scope tree: what was declared, and the children declared under it by
  identifier, in declaration order.
\<close>

datatype resourceKind =
    Resource "string option"
  | IamRole RoleProps
  | CfnTrigger CfnTriggerProps
  | EventsRule Rule

datatype construct = Construct (kind: resourceKind) (children: "(string \<times> construct) list")

datatype error = TypeError string | DuplicateDeclarationError string

text \<open>
  Modelled from the spec: the scope tree (the \<^verbatim>\<open>constructs\<close> library) is not among
  the sources. The spec gives \<^verbatim>\<open>findExistingChild(parent, id) -> deferredRef | absent\<close>
  and \<^verbatim>\<open>declareChild(parent, id, kind, properties)\<close>, which fails with
  \<^verbatim>\<open>DuplicateDeclarationError\<close> on a sibling identifier collision within a scope.
\<close>

definition findExistingChild :: "(string \<times> construct) list \<Rightarrow> string \<Rightarrow> construct option" where
  "findExistingChild cs i = map_of cs i"

definition declareChild ::
  "(string \<times> construct) list \<Rightarrow> string \<Rightarrow> construct \<Rightarrow> error + (string \<times> construct) list" where
  "declareChild cs i c =
     (case findExistingChild cs i of
        Some _ \<Rightarrow> Inl (DuplicateDeclarationError i)
      | None \<Rightarrow> Inr (cs @ [(i, c)]))"

text \<open>The children declared under the node \<open>i\<close> of a scope, once they are known.\<close>

definition setChildren ::
  "(string \<times> construct) list \<Rightarrow> string \<Rightarrow> (string \<times> construct) list
     \<Rightarrow> (string \<times> construct) list" where
  "setChildren cs i kids =
     map (\<lambda>(j, c). if j = i then (j, Construct (kind c) kids) else (j, c)) cs"

record scope =
  scopePath :: "string list"
  scopeChildren :: "(string \<times> construct) list"

text \<open>
  Modelled from the spec: \<^verbatim>\<open>getResourceNameAttribute\<close> of \<^verbatim>\<open>cdk.Resource\<close> is not
  among the sources; the name it returns is the deferred reference to the declared
  resource, resolved at deployment to the physical name.
\<close>

definition getResourceNameAttribute :: "deferred \<Rightarrow> deferred" where
  "getResourceNameAttribute nameAttr = nameAttr"

section \<open>The Trigger construct of \<^verbatim>\<open>lib/trigger.ts\<close>\<close>

text \<open>
  \<^verbatim>\<open>TriggerProps\<close>. The interface declares \<^verbatim>\<open>description\<close>, \<^verbatim>\<open>predicate\<close>,
  \<^verbatim>\<open>schedule\<close> and \<^verbatim>\<open>startOnCreation\<close> without \<^verbatim>\<open>?\<close>, but the test suite
  builds its props from \<^verbatim>\<open>actions\<close>, \<^verbatim>\<open>workflowName\<close> and \<^verbatim>\<open>type\<close> alone, and
  a property that is not there reads as \<^verbatim>\<open>undefined\<close>: those fields are options,
  \<open>None\<close> for \<^verbatim>\<open>undefined\<close>.
\<close>

record TriggerProps =
  actions :: "json list"
  description :: "string option"
  predicate :: "json option"
  schedule :: "Schedule option"
  startOnCreation :: "bool option"
  type :: TriggerType
  workflowName :: string
  triggerName :: "string option"
  tags :: "(string \<times> string) list option"
  role :: "IRole option"

record Trigger =
  this_triggerArn :: deferred
  this_triggerName :: deferred
  this_role :: IRole
  this_grantPrincipal :: IPrincipal

text \<open>
  The props of the default role: assumed by the Glue service principal, with the
  managed policy \<^verbatim>\<open>ManagedPolicy.fromAwsManagedPolicyName\<close> names.
\<close>

definition glueServiceRole :: RoleProps where
  "glueServiceRole =
     \<lparr>assumedBy = ServicePrincipal ''glue.amazonaws.com'',
      managedPolicies = [AwsManagedPolicy ''service-role/AWSGlueServiceRole'']\<rparr>"

text \<open>
  \<^verbatim>\<open>props.role ?? new iam.Role(this, 'ServiceRole', ...)\<close>: the children of the
  trigger after the step, and the role.
\<close>

definition Trigger_role ::
  "string list \<Rightarrow> (string \<times> construct) list \<Rightarrow> TriggerProps
     \<Rightarrow> error + ((string \<times> construct) list \<times> IRole)" where
  "Trigger_role this cs props =
     (case role props of
        Some r \<Rightarrow> Inr (cs, r)
      | None \<Rightarrow>
          (case declareChild cs ''ServiceRole'' (Construct (IamRole glueServiceRole) []) of
             Inl e \<Rightarrow> Inl e
            | Inr cs' \<Rightarrow> Inr (cs', ConstructRole (this @ [''ServiceRole'']))))"

text \<open>
  The object literal passed to \<^verbatim>\<open>CfnTrigger\<close>. Its properties are evaluated in
  order; \<^verbatim>\<open>props.schedule.expressionString\<close> reads a property of \<^verbatim>\<open>undefined\<close>
  when there is no schedule, which throws a \<^verbatim>\<open>TypeError\<close>.
\<close>

definition Trigger_cfnProps :: "TriggerProps \<Rightarrow> error + CfnTriggerProps" where
  "Trigger_cfnProps props =
     (case schedule props of
        None \<Rightarrow> Inl (TypeError ''expressionString'')
      | Some s \<Rightarrow>
          Inr \<lparr>cfn_workflowName = Some (workflowName props),
               cfn_tags = tags props,
               cfn_startOnCreation = startOnCreation props,
               cfn_schedule = Some (expressionString s),
               cfn_predicate = predicate props,
               cfn_name = triggerName props,
               cfn_actions = actions props,
               cfn_description = description props,
               cfn_type = TriggerType_name (type props)\<rparr>)"

text \<open>
  The constructor after \<^verbatim>\<open>super\<close>: \<open>this\<close> is the path of the trigger, whose
  children start empty. \<open>allocateLogicalId\<close> is the stack's naming of a declared
  resource from its path (a hash that is not among the sources).
\<close>

definition Trigger_body ::
  "(string list \<Rightarrow> string) \<Rightarrow> string list \<Rightarrow> TriggerProps
     \<Rightarrow> error + ((string \<times> construct) list \<times> Trigger)" where
  "Trigger_body allocateLogicalId this props =
     (case Trigger_role this [] props of
        Inl e \<Rightarrow> Inl e
      | Inr (cs1, r) \<Rightarrow>
          (case Trigger_cfnProps props of
             Inl e \<Rightarrow> Inl e
           | Inr cfn \<Rightarrow>
               (case declareChild cs1 ''Resource'' (Construct (CfnTrigger cfn) []) of
                  Inl e \<Rightarrow> Inl e
                | Inr cs2 \<Rightarrow>
                    (let ref = [Ref (allocateLogicalId (this @ [''Resource'']))];
                         resourceName = getResourceNameAttribute ref
                     in Inr (cs2,
                          \<lparr>this_triggerArn = triggeerArn resourceName,
                           this_triggerName = resourceName,
                           this_role = r,
                           this_grantPrincipal = RolePrincipal r\<rparr>)))))"

text \<open>
  \<^verbatim>\<open>new Trigger(scope, id, props)\<close>: \<^verbatim>\<open>super(scope, id, {physicalName})\<close> declares
  the trigger under \<open>id\<close> in the scope, and an error of the scope tree ends the
  construction; then the body declares the children, which hang under the node just
  declared. The result is the scope after the construction and the trigger.
\<close>

definition Trigger_new ::
  "(string list \<Rightarrow> string) \<Rightarrow> scope \<Rightarrow> string \<Rightarrow> TriggerProps \<Rightarrow> error + (scope \<times> Trigger)" where
  "Trigger_new allocateLogicalId sc i props =
     (case declareChild (scopeChildren sc) i (Construct (Resource (triggerName props)) []) of
        Inl e \<Rightarrow> Inl e
      | Inr declared \<Rightarrow>
          (case Trigger_body allocateLogicalId (scopePath sc @ [i]) props of
             Inl e \<Rightarrow> Inl e
           | Inr (cs, t) \<Rightarrow> Inr (sc\<lparr>scopeChildren := setChildren declared i cs\<rparr>, t)))"

text \<open>What a scope holds for the trigger declared under \<open>i\<close>.\<close>

definition emittedRecord :: "scope \<Rightarrow> string \<Rightarrow> CfnTriggerProps option" where
  "emittedRecord sc i =
     (case findExistingChild (scopeChildren sc) i of
        None \<Rightarrow> None
      | Some c \<Rightarrow>
          (case findExistingChild (children c) ''Resource'' of
             Some (Construct (CfnTrigger p) _) \<Rightarrow> Some p
           | _ \<Rightarrow> None))"

fun roleOf :: "string \<times> construct \<Rightarrow> RoleProps list" where
  "roleOf (i, Construct (IamRole p) cs) = [p]"
| "roleOf (i, Construct k cs) = []"

definition declaredRoles :: "scope \<Rightarrow> string \<Rightarrow> RoleProps list" where
  "declaredRoles sc i =
     (case findExistingChild (scopeChildren sc) i of
        None \<Rightarrow> []
      | Some c \<Rightarrow> concat (map roleOf (children c)))"

text \<open>
  The props of the test suite: \<^verbatim>\<open>actions: []\<close>, an empty \<^verbatim>\<open>workflowName\<close> and
  the on-demand type, which the test writes \<^verbatim>\<open>TriggerType.ON_DEMAND\<close> and the class
  of \<^verbatim>\<open>lib/trigger.ts\<close> names \<^verbatim>\<open>onDemand\<close>; every other property is absent.
\<close>

definition defaultProps :: TriggerProps where
  "defaultProps =
     \<lparr>actions = [], description = None, predicate = None, schedule = None,
      startOnCreation = None, type = onDemand, workflowName = '''', triggerName = None,
      tags = None, role = None\<rparr>"

definition stack :: scope where
  "stack = \<lparr>scopePath = [], scopeChildren = []\<rparr>"

section \<open>The ScheduledTrigger construct of \<^verbatim>\<open>part_001\<close>\<close>

text \<open>
  \<^verbatim>\<open>ScheduledTriggerProps\<close> with the fields of \<^verbatim>\<open>TriggerBaseProps\<close>. The
  constructor reads the schedule as \<^verbatim>\<open>props.schedule?.expressionString\<close>, so an
  absent schedule is an input it handles.
\<close>

record ScheduledTriggerProps =
  st_actions :: "json list"
  st_description :: "string option"
  st_workflowName :: "string option"
  st_triggerName :: "string option"
  st_tags :: "(string \<times> string) list option"
  st_schedule :: "Schedule option"
  st_startOnCreation :: "bool option"

record ScheduledTrigger =
  st_this_triggerArn :: deferred
  st_this_triggerName :: deferred

definition ScheduledTrigger_cfnProps :: "ScheduledTriggerProps \<Rightarrow> CfnTriggerProps" where
  "ScheduledTrigger_cfnProps props =
     \<lparr>cfn_workflowName = st_workflowName props,
      cfn_tags = st_tags props,
      cfn_startOnCreation = st_startOnCreation props,
      cfn_schedule = map_option expressionString (st_schedule props),
      cfn_predicate = None,
      cfn_name = st_triggerName props,
      cfn_actions = st_actions props,
      cfn_description = st_description props,
      cfn_type = TriggerType_enum_token SCHEDULED\<rparr>"

definition ScheduledTrigger_new ::
  "(string list \<Rightarrow> string) \<Rightarrow> scope \<Rightarrow> string \<Rightarrow> ScheduledTriggerProps
     \<Rightarrow> error + (scope \<times> ScheduledTrigger)" where
  "ScheduledTrigger_new allocateLogicalId sc i props =
     (case declareChild (scopeChildren sc) i (Construct (Resource (st_triggerName props)) []) of
        Inl e \<Rightarrow> Inl e
      | Inr declared \<Rightarrow>
          (case declareChild [] ''Resource''
                  (Construct (CfnTrigger (ScheduledTrigger_cfnProps props)) []) of
             Inl e \<Rightarrow> Inl e
           | Inr cs \<Rightarrow>
               (let ref = [Ref (allocateLogicalId (scopePath sc @ [i, ''Resource'']))];
                    resourceName = getResourceNameAttribute ref
                in Inr (sc\<lparr>scopeChildren := setChildren declared i cs\<rparr>,
                        \<lparr>st_this_triggerArn = triggeerArn resourceName,
                         st_this_triggerName = resourceName\<rparr>))))"

section \<open>The event rules of \<^verbatim>\<open>TriggerBase\<close> in \<^verbatim>\<open>part_000\<close>\<close>

text \<open>
  Modelled from the spec: \<^verbatim>\<open>events.Rule\<close> is not among the sources. The spec gives
  \<^verbatim>\<open>createRule(pattern) -> RuleHandle\<close> and \<^verbatim>\<open>RuleHandle.addEventPattern(extra)\<close>:
  a rule starts from the description, name and pattern of its options, and an added
  pattern joins its values to those the rule has, field by field. A target that is not
  given adds nothing.
\<close>

definition mergeValues :: "'a list \<Rightarrow> 'a list \<Rightarrow> 'a list" where
  "mergeValues xs ys = xs @ filter (\<lambda>y. y \<notin> set xs) ys"

fun mergeDetail ::
  "(string \<times> deferred list) list \<Rightarrow> (string \<times> deferred list) list
     \<Rightarrow> (string \<times> deferred list) list" where
  "mergeDetail d [] = d"
| "mergeDetail d ((k, vs) # rest) =
     mergeDetail
       (case map_of d k of
          None \<Rightarrow> d @ [(k, vs)]
        | Some old \<Rightarrow> map (\<lambda>(k', vs'). if k' = k then (k', mergeValues vs' vs) else (k', vs')) d)
       rest"

definition mergeEventPattern :: "EventPattern \<Rightarrow> EventPattern \<Rightarrow> EventPattern" where
  "mergeEventPattern dest src =
     \<lparr>source = mergeValues (source dest) (source src),
      detailType = mergeValues (detailType dest) (detailType src),
      detail = mergeDetail (detail dest) (detail src)\<rparr>"

definition Rule_new :: "OnEventOptions \<Rightarrow> Rule" where
  "Rule_new options =
     \<lparr>rule_description = opt_description options,
      rule_ruleName = opt_ruleName options,
      rule_targets = [],
      rule_eventPattern =
        (case opt_eventPattern options of
           None \<Rightarrow> \<lparr>source = [], detailType = [], detail = []\<rparr>
         | Some p \<Rightarrow> p)\<rparr>"

definition addTarget :: "string option \<Rightarrow> Rule \<Rightarrow> Rule" where
  "addTarget target r =
     (case target of None \<Rightarrow> r | Some t \<Rightarrow> r\<lparr>rule_targets := rule_targets r @ [t]\<rparr>)"

definition addEventPattern :: "EventPattern \<Rightarrow> Rule \<Rightarrow> Rule" where
  "addEventPattern extra r = r\<lparr>rule_eventPattern := mergeEventPattern (rule_eventPattern r) extra\<rparr>"

text \<open>A method call on the rule declared under \<open>i\<close> changes that node in place.\<close>

fun onRule :: "(Rule \<Rightarrow> Rule) \<Rightarrow> construct \<Rightarrow> construct" where
  "onRule f (Construct (EventsRule r) cs) = Construct (EventsRule (f r)) cs"
| "onRule f c = c"

definition updateRule ::
  "(string \<times> construct) list \<Rightarrow> string \<Rightarrow> (Rule \<Rightarrow> Rule) \<Rightarrow> (string \<times> construct) list" where
  "updateRule cs i f = map (\<lambda>(j, c). if j = i then (j, onRule f c) else (j, c)) cs"

text \<open>
  \<^verbatim>\<open>TriggerBase\<close>: the name its rules match on and the children of its node. A rule
  is returned as the identifier of the child that holds it.
\<close>

record TriggerBase =
  jobName :: deferred
  nodeChildren :: "(string \<times> construct) list"

definition ruleAt :: "TriggerBase \<Rightarrow> string \<Rightarrow> Rule option" where
  "ruleAt this i =
     (case findExistingChild (nodeChildren this) i of
        Some (Construct (EventsRule r) _) \<Rightarrow> Some r
      | _ \<Rightarrow> None)"

definition onEvent :: "TriggerBase \<Rightarrow> string \<Rightarrow> OnEventOptions \<Rightarrow> error + (TriggerBase \<times> string)" where
  "onEvent this i options =
     (case declareChild (nodeChildren this) i (Construct (EventsRule (Rule_new options)) []) of
        Inl e \<Rightarrow> Inl e
      | Inr cs \<Rightarrow>
          (let cs1 = updateRule cs i (addTarget (opt_target options));
               cs2 = updateRule cs1 i
                       (addEventPattern
                          \<lparr>source = [''aws.glue''],
                           detailType = [''Glue Job State Change'', ''Glue Job Run Status''],
                           detail = [(''jobName'', [jobName this])]\<rparr>)
           in Inr (this\<lparr>nodeChildren := cs2\<rparr>, i)))"

text \<open>
  The state is an enum value of the source, which at run time is its string; the
  method only interpolates it and puts it in the pattern.
\<close>

definition onStateChange ::
  "TriggerBase \<Rightarrow> string \<Rightarrow> string \<Rightarrow> OnEventOptions \<Rightarrow> error + (TriggerBase \<times> string)" where
  "onStateChange this i jobState options =
     (case onEvent this i
             (options\<lparr>opt_description :=
                (case opt_description options of
                   Some d \<Rightarrow> Some d
                 | None \<Rightarrow>
                     Some ([Lit ''Rule triggered when Glue job ''] @ jobName this
                             @ [Lit ('' is in '' @ jobState @ '' state'')]))\<rparr>) of
        Inl e \<Rightarrow> Inl e
      | Inr (this', rule) \<Rightarrow>
          Inr (this'\<lparr>nodeChildren :=
                      updateRule (nodeChildren this') rule
                        (addEventPattern
                           \<lparr>source = [], detailType = [],
                            detail = [(''state'', [[Lit jobState]])]\<rparr>)\<rparr>,
               rule))"

definition noOptions :: OnEventOptions where
  "noOptions =
     \<lparr>opt_description = None, opt_eventPattern = None, opt_ruleName = None, opt_target = None\<rparr>"

definition onSuccess :: "TriggerBase \<Rightarrow> string \<Rightarrow> OnEventOptions \<Rightarrow> error + (TriggerBase \<times> string)" where
  "onSuccess this i options = onStateChange this i (triggerState_token SUCCEEDED) options"

definition onFailure :: "TriggerBase \<Rightarrow> string \<Rightarrow> OnEventOptions \<Rightarrow> error + (TriggerBase \<times> string)" where
  "onFailure this i options = onStateChange this i (triggerState_token FAILED) options"

definition onTimeout :: "TriggerBase \<Rightarrow> string \<Rightarrow> OnEventOptions \<Rightarrow> error + (TriggerBase \<times> string)" where
  "onTimeout this i options = onStateChange this i (triggerState_token TIMEOUT) options"

text \<open>
  \<^verbatim>\<open>this.node.tryFindChild(id) as events.Rule ?? this.onStateChange(id, jobState)\<close>:
  the child under \<open>i\<close> when there is one, a new rule otherwise.
\<close>

definition metricJobStateRule :: "TriggerBase \<Rightarrow> string \<Rightarrow> string \<Rightarrow> error + (TriggerBase \<times> string)" where
  "metricJobStateRule this i jobState =
     (case findExistingChild (nodeChildren this) i of
        Some _ \<Rightarrow> Inr (this, i)
      | None \<Rightarrow> onStateChange this i jobState noOptions)"

definition exampleBase :: TriggerBase where
  "exampleBase = \<lparr>jobName = [Ref ''TriggerD50EE54C''], nodeChildren = []\<rparr>"

text \<open>A scheduled trigger at noon, the props of the second concrete scenario.\<close>

definition scheduledProps :: TriggerProps where
  "scheduledProps =
     defaultProps\<lparr>type := Scheduled,
                  schedule := Some \<lparr>expressionString = ''cron(0 12 * * ? *)''\<rparr>\<rparr>"

definition scheduledTriggerProps :: ScheduledTriggerProps where
  "scheduledTriggerProps =
     \<lparr>st_actions = [], st_description = None, st_workflowName = None, st_triggerName = None,
      st_tags = None, st_schedule = Some \<lparr>expressionString = ''cron(0 12 * * ? *)''\<rparr>,
      st_startOnCreation = None\<rparr>"

text \<open>The record emitted under \<open>i\<close> has the schedule \<open>e\<close> and the type \<open>ty\<close>.\<close>

definition emitsScheduleAndType :: "scope \<Rightarrow> string \<Rightarrow> string \<Rightarrow> string \<Rightarrow> bool" where
  "emitsScheduleAndType sc i e ty =
     (case emittedRecord sc i of
        None \<Rightarrow> False
      | Some p \<Rightarrow> cfn_schedule p = Some e \<and> cfn_type p = ty)"

section \<open>The scope tree\<close>

lemma findExistingChild_append:
  "findExistingChild (cs @ [(i, c)]) j =
     (case findExistingChild cs j of Some x \<Rightarrow> Some x | None \<Rightarrow> if j = i then Some c else None)"
  by (simp add: findExistingChild_def map_add_def split: option.splits)

lemma declareChild_Inr:
  "declareChild cs i c = Inr cs' \<longleftrightarrow> findExistingChild cs i = None \<and> cs' = cs @ [(i, c)]"
  by (auto simp: declareChild_def split: option.splits)

lemma declareChild_Inl:
  "declareChild cs i c = Inl e \<longleftrightarrow> findExistingChild cs i \<noteq> None \<and> e = DuplicateDeclarationError i"
  by (auto simp: declareChild_def split: option.splits)

lemma setChildren_declared:
  assumes "findExistingChild cs i = None"
  shows "setChildren (cs @ [(i, Construct k [])]) i kids = cs @ [(i, Construct k kids)]"
proof -
  from assms have "i \<notin> fst ` set cs"
    by (simp add: findExistingChild_def map_of_eq_None_iff)
  then have "map (\<lambda>(j, c). if j = i then (j, Construct (kind c) kids) else (j, c)) cs = cs"
    by (intro map_idI) (auto simp: rev_image_eqI)
  then show ?thesis by (simp add: setChildren_def)
qed

lemma findExistingChild_updateRule:
  "findExistingChild (updateRule cs i f) j =
     map_option (\<lambda>c. if j = i then onRule f c else c) (findExistingChild cs j)"
  by (induction cs) (auto simp: findExistingChild_def updateRule_def)

section \<open>What the constructor of \<^verbatim>\<open>lib/trigger.ts\<close> builds\<close>

lemma Trigger_body_Inr:
  "Trigger_body lid this props = Inr (cs, t) \<Longrightarrow>
     \<exists>p. Trigger_cfnProps props = Inr p \<and>
       findExistingChild cs ''Resource'' = Some (Construct (CfnTrigger p) []) \<and>
       this_triggerName t = [Ref (lid (this @ [''Resource'']))] \<and>
       this_triggerArn t = triggeerArn (this_triggerName t) \<and>
       this_grantPrincipal t = RolePrincipal (this_role t) \<and>
       (case role props of
          Some r \<Rightarrow> this_role t = r \<and> cs = [(''Resource'', Construct (CfnTrigger p) [])]
        | None \<Rightarrow> this_role t = ConstructRole (this @ [''ServiceRole'']) \<and>
            cs = [(''ServiceRole'', Construct (IamRole glueServiceRole) []),
                  (''Resource'', Construct (CfnTrigger p) [])])"
  by (auto simp: Trigger_body_def Trigger_role_def declareChild_def findExistingChild_def
        getResourceNameAttribute_def Let_def split: option.splits sum.splits)

lemma Trigger_new_Inr:
  "Trigger_new lid sc i props = Inr (sc', t) \<longleftrightarrow>
     findExistingChild (scopeChildren sc) i = None \<and>
     (\<exists>cs. Trigger_body lid (scopePath sc @ [i]) props = Inr (cs, t) \<and>
        sc' = sc\<lparr>scopeChildren :=
                  scopeChildren sc @ [(i, Construct (Resource (triggerName props)) cs)]\<rparr>)"
  by (auto simp: Trigger_new_def declareChild_def setChildren_declared
        split: option.splits sum.splits)

lemma Trigger_new_emits:
  assumes "Trigger_new lid sc i props = Inr (sc', t)"
  shows "\<exists>p. Trigger_cfnProps props = Inr p \<and> emittedRecord sc' i = Some p"
proof -
  from assms obtain cs where fresh: "findExistingChild (scopeChildren sc) i = None"
    and body: "Trigger_body lid (scopePath sc @ [i]) props = Inr (cs, t)"
    and sc': "sc' = sc\<lparr>scopeChildren :=
                  scopeChildren sc @ [(i, Construct (Resource (triggerName props)) cs)]\<rparr>"
    by (auto simp: Trigger_new_Inr)
  from Trigger_body_Inr [OF body] obtain p where p: "Trigger_cfnProps props = Inr p"
    and res: "findExistingChild cs ''Resource'' = Some (Construct (CfnTrigger p) [])"
    by blast
  have "emittedRecord sc' i = Some p"
    by (simp add: emittedRecord_def sc' findExistingChild_append fresh res)
  with p show ?thesis by blast
qed

lemma Trigger_cfnProps_Inr:
  "Trigger_cfnProps props = Inr p \<Longrightarrow>
     cfn_name p = triggerName props \<and> cfn_type p = TriggerType_name (type props) \<and>
     cfn_schedule p = map_option expressionString (schedule props) \<and>
     schedule props \<noteq> None"
  by (auto simp: Trigger_cfnProps_def split: option.splits)

lemmas Trigger_eval =
  Trigger_new_def Trigger_body_def Trigger_role_def Trigger_cfnProps_def setChildren_def
  declareChild_def findExistingChild_def getResourceNameAttribute_def triggeerArn_def
  formatArn_def stack_def scheduledProps_def defaultProps_def emittedRecord_def Let_def

section \<open>The name of the emitted record\<close>

text \<open>
  C4. Whenever the constructor returns a trigger whose props give
  \<^verbatim>\<open>triggerName = N\<close>, the record it emitted under that trigger has the name
  \<open>N\<close>, character for character.
\<close>

theorem Trigger_name_verbatim:
  assumes "Trigger_new allocateLogicalId sc i props = Inr (sc', t)"
    and "triggerName props = Some N"
  shows "\<exists>p. emittedRecord sc' i = Some p \<and> cfn_name p = Some N"
  using Trigger_new_emits [OF assms(1)] assms(2) Trigger_cfnProps_Inr by fastforce

theorem Trigger_name_verbatim_witness:
  "\<exists>sc' t p.
     Trigger_new (\<lambda>p. ''TriggerD50EE54C'') stack ''triggerWithName''
       (scheduledProps\<lparr>triggerName := Some ''test-trigger''\<rparr>) = Inr (sc', t)
     \<and> emittedRecord sc' ''triggerWithName'' = Some p \<and> cfn_name p = Some ''test-trigger''"
proof -
  obtain sc' t where h:
    "Trigger_new (\<lambda>p. ''TriggerD50EE54C'') stack ''triggerWithName''
       (scheduledProps\<lparr>triggerName := Some ''test-trigger''\<rparr>) = Inr (sc', t)"
    by (simp add: Trigger_eval)
  have n: "triggerName (scheduledProps\<lparr>triggerName := Some ''test-trigger''\<rparr>) = Some ''test-trigger''"
    by simp
  from Trigger_name_verbatim [OF h n] h show ?thesis by blast
qed

section \<open>The default role and the grant principal\<close>

lemma Trigger_new_roles:
  assumes "Trigger_new lid sc i props = Inr (sc', t)"
  shows "case role props of
           None \<Rightarrow> declaredRoles sc' i = [glueServiceRole] \<and>
                   this_role t = ConstructRole (scopePath sc @ [i, ''ServiceRole''])
         | Some r \<Rightarrow> declaredRoles sc' i = [] \<and> this_role t = r"
proof -
  from assms obtain cs where fresh: "findExistingChild (scopeChildren sc) i = None"
    and body: "Trigger_body lid (scopePath sc @ [i]) props = Inr (cs, t)"
    and sc': "sc' = sc\<lparr>scopeChildren :=
                  scopeChildren sc @ [(i, Construct (Resource (triggerName props)) cs)]\<rparr>"
    by (auto simp: Trigger_new_Inr)
  from Trigger_body_Inr [OF body] show ?thesis
    by (auto simp: declaredRoles_def sc' findExistingChild_append fresh split: option.splits)
qed

text \<open>
  C6. A trigger built without a role has exactly one role declared under it, the one
  assumed by \<^verbatim>\<open>glue.amazonaws.com\<close> with the managed policy
  \<^verbatim>\<open>service-role/AWSGlueServiceRole\<close>, and that role is the trigger's; a trigger
  built with a role has no role declared under it and keeps the role it was given.
\<close>

theorem Trigger_default_role:
  assumes "Trigger_new allocateLogicalId sc i props = Inr (sc', t)"
  shows "(role props = None \<longrightarrow>
            declaredRoles sc' i =
              [\<lparr>assumedBy = ServicePrincipal ''glue.amazonaws.com'',
                managedPolicies = [AwsManagedPolicy ''service-role/AWSGlueServiceRole'']\<rparr>] \<and>
            this_role t = ConstructRole (scopePath sc @ [i, ''ServiceRole''])) \<and>
         (\<forall>r. role props = Some r \<longrightarrow> declaredRoles sc' i = [] \<and> this_role t = r)"
  using Trigger_new_roles [OF assms] by (auto simp: glueServiceRole_def split: option.splits)

theorem Trigger_default_role_witness:
  "(\<exists>sc' t. Trigger_new (\<lambda>p. ''TriggerD50EE54C'') stack ''Trigger'' scheduledProps = Inr (sc', t)
       \<and> role scheduledProps = None
       \<and> declaredRoles sc' ''Trigger'' =
           [\<lparr>assumedBy = ServicePrincipal ''glue.amazonaws.com'',
             managedPolicies = [AwsManagedPolicy ''service-role/AWSGlueServiceRole'']\<rparr>]
       \<and> this_role t = ConstructRole [''Trigger'', ''ServiceRole'']) \<and>
   (\<exists>sc' t. Trigger_new (\<lambda>p. ''TriggerD50EE54C'') stack ''Trigger''
         (scheduledProps\<lparr>role := Some (ImportedRole ''GlueRole'')\<rparr>) = Inr (sc', t)
       \<and> declaredRoles sc' ''Trigger'' = []
       \<and> this_role t = ImportedRole ''GlueRole'')"
proof -
  obtain sc1 t1 where h1:
    "Trigger_new (\<lambda>p. ''TriggerD50EE54C'') stack ''Trigger'' scheduledProps = Inr (sc1, t1)"
    by (simp add: Trigger_eval)
  obtain sc2 t2 where h2:
    "Trigger_new (\<lambda>p. ''TriggerD50EE54C'') stack ''Trigger''
       (scheduledProps\<lparr>role := Some (ImportedRole ''GlueRole'')\<rparr>) = Inr (sc2, t2)"
    by (simp add: Trigger_eval)
  have r1: "role scheduledProps = None"
    by (simp add: scheduledProps_def defaultProps_def)
  have p1: "scopePath stack @ [''Trigger'', ''ServiceRole''] = [''Trigger'', ''ServiceRole'']"
    by (simp add: stack_def)
  from Trigger_default_role [OF h1] r1 p1 Trigger_default_role [OF h2] h1 h2
  show ?thesis by auto
qed



section \<open>Two triggers under one identifier\<close>

text \<open>
  C7. Once a trigger has been built under an identifier in a scope, building another
  trigger under the same identifier in that scope fails with
  \<^verbatim>\<open>DuplicateDeclarationError\<close>, whatever its props.
\<close>

theorem Trigger_duplicate_identifier:
  assumes "Trigger_new allocateLogicalId sc i props = Inr (sc', t)"
  shows "Trigger_new allocateLogicalId' sc' i props' = Inl (DuplicateDeclarationError i)"
proof -
  from assms obtain cs where "findExistingChild (scopeChildren sc) i = None"
    and "sc' = sc\<lparr>scopeChildren :=
                  scopeChildren sc @ [(i, Construct (Resource (triggerName props)) cs)]\<rparr>"
    by (auto simp: Trigger_new_Inr)
  then have "findExistingChild (scopeChildren sc') i
               = Some (Construct (Resource (triggerName props)) cs)"
    by (simp add: findExistingChild_append)
  then show ?thesis by (simp add: Trigger_new_def declareChild_def)
qed

theorem Trigger_duplicate_identifier_witness:
  "\<exists>sc' t. Trigger_new (\<lambda>p. ''TriggerD50EE54C'') stack ''Trigger'' scheduledProps = Inr (sc', t)
     \<and> Trigger_new (\<lambda>p. ''TriggerD50EE54C'') sc' ''Trigger'' defaultProps
         = Inl (DuplicateDeclarationError ''Trigger'')"
proof -
  obtain sc1 t1 where h1:
    "Trigger_new (\<lambda>p. ''TriggerD50EE54C'') stack ''Trigger'' scheduledProps = Inr (sc1, t1)"
    by (simp add: Trigger_eval)
  from Trigger_duplicate_identifier [OF h1] h1 show ?thesis by blast
qed

section \<open>Scheduled triggers\<close>

lemma Trigger_body_total:
  "schedule props = Some s \<Longrightarrow> \<exists>cs t. Trigger_body lid this props = Inr (cs, t)"
  by (simp add: Trigger_body_def Trigger_role_def Trigger_cfnProps_def declareChild_def
        findExistingChild_def Let_def split: option.splits)

lemma Trigger_new_total:
  assumes "findExistingChild (scopeChildren sc) i = None" and "schedule props = Some s"
  shows "\<exists>sc' t. Trigger_new lid sc i props = Inr (sc', t)"
proof -
  from Trigger_body_total [OF assms(2)] obtain cs t
    where "Trigger_body lid (scopePath sc @ [i]) props = Inr (cs, t)" by blast
  with assms(1) show ?thesis by (auto simp: Trigger_new_Inr)
qed

lemma ScheduledTrigger_new_emits:
  assumes "findExistingChild (scopeChildren sc) i = None"
  shows "\<exists>sc' t. ScheduledTrigger_new lid sc i props = Inr (sc', t) \<and>
           emittedRecord sc' i = Some (ScheduledTrigger_cfnProps props)"
proof -
  have d: "declareChild (scopeChildren sc) i c = Inr (scopeChildren sc @ [(i, c)])" for c
    using assms by (simp add: declareChild_def)
  have e: "declareChild [] j c = Inr [(j, c)]" for j c
    by (simp add: declareChild_def findExistingChild_def)
  have r: "findExistingChild [(j, c)] j = Some c" for j c
    by (simp add: findExistingChild_def)
  show ?thesis
    by (simp add: ScheduledTrigger_new_def d e r Let_def setChildren_declared [OF assms]
          emittedRecord_def findExistingChild_append assms)
qed

text \<open>
  C8. Under an identifier that is free in the scope, a trigger of
  \<^verbatim>\<open>lib/trigger.ts\<close> with the type \<^verbatim>\<open>Scheduled\<close> and the schedule
  \<^verbatim>\<open>cron(0 12 * * ? *)\<close>, and a \<^verbatim>\<open>ScheduledTrigger\<close> of \<^verbatim>\<open>part_001\<close> with that
  schedule, are both built, and the record each emits has that schedule, unchanged, and
  the type \<^verbatim>\<open>SCHEDULED\<close>.
\<close>

theorem scheduled_trigger_record:
  assumes "findExistingChild (scopeChildren sc) i = None"
  shows "(type props = Scheduled \<and> schedule props = Some \<lparr>expressionString = ''cron(0 12 * * ? *)''\<rparr>
            \<longrightarrow> (\<exists>sc' t. Trigger_new allocateLogicalId sc i props = Inr (sc', t) \<and>
                   emitsScheduleAndType sc' i ''cron(0 12 * * ? *)'' ''SCHEDULED'')) \<and>
         (st_schedule sprops = Some \<lparr>expressionString = ''cron(0 12 * * ? *)''\<rparr>
            \<longrightarrow> (\<exists>sc' t. ScheduledTrigger_new allocateLogicalId sc i sprops = Inr (sc', t) \<and>
                   emitsScheduleAndType sc' i ''cron(0 12 * * ? *)'' ''SCHEDULED''))"
proof (intro conjI impI)
  assume a: "type props = Scheduled \<and> schedule props = Some \<lparr>expressionString = ''cron(0 12 * * ? *)''\<rparr>"
  from Trigger_new_total [OF assms, of props] a obtain sc' t
    where h: "Trigger_new allocateLogicalId sc i props = Inr (sc', t)" by blast
  from Trigger_new_emits [OF h] obtain p
    where p: "Trigger_cfnProps props = Inr p" "emittedRecord sc' i = Some p" by blast
  from Trigger_cfnProps_Inr [OF p(1)] a p(2)
  have "emitsScheduleAndType sc' i ''cron(0 12 * * ? *)'' ''SCHEDULED''"
    by (simp add: emitsScheduleAndType_def)
  with h show "\<exists>sc' t. Trigger_new allocateLogicalId sc i props = Inr (sc', t) \<and>
                   emitsScheduleAndType sc' i ''cron(0 12 * * ? *)'' ''SCHEDULED''" by blast
next
  assume a: "st_schedule sprops = Some \<lparr>expressionString = ''cron(0 12 * * ? *)''\<rparr>"
  from ScheduledTrigger_new_emits [OF assms, of allocateLogicalId sprops] obtain sc' t
    where h: "ScheduledTrigger_new allocateLogicalId sc i sprops = Inr (sc', t)"
             "emittedRecord sc' i = Some (ScheduledTrigger_cfnProps sprops)" by blast
  from h(2) a have "emitsScheduleAndType sc' i ''cron(0 12 * * ? *)'' ''SCHEDULED''"
    by (simp add: emitsScheduleAndType_def ScheduledTrigger_cfnProps_def)
  with h(1) show "\<exists>sc' t. ScheduledTrigger_new allocateLogicalId sc i sprops = Inr (sc', t) \<and>
                   emitsScheduleAndType sc' i ''cron(0 12 * * ? *)'' ''SCHEDULED''" by blast
qed

theorem scheduled_trigger_record_witness:
  "findExistingChild (scopeChildren stack) ''Noon'' = None \<and>
   type scheduledProps = Scheduled \<and>
   schedule scheduledProps = Some \<lparr>expressionString = ''cron(0 12 * * ? *)''\<rparr> \<and>
   st_schedule scheduledTriggerProps = Some \<lparr>expressionString = ''cron(0 12 * * ? *)''\<rparr> \<and>
   (\<exists>sc' t. Trigger_new (\<lambda>p. ''NoonD50EE54C'') stack ''Noon'' scheduledProps = Inr (sc', t) \<and>
            emitsScheduleAndType sc' ''Noon'' ''cron(0 12 * * ? *)'' ''SCHEDULED'') \<and>
   (\<exists>sc' t. ScheduledTrigger_new (\<lambda>p. ''NoonD50EE54C'') stack ''Noon'' scheduledTriggerProps
               = Inr (sc', t) \<and>
            emitsScheduleAndType sc' ''Noon'' ''cron(0 12 * * ? *)'' ''SCHEDULED'')"
proof -
  have f: "findExistingChild (scopeChildren stack) ''Noon'' = None"
    by (simp add: findExistingChild_def stack_def)
  have a: "type scheduledProps = Scheduled"
    "schedule scheduledProps = Some \<lparr>expressionString = ''cron(0 12 * * ? *)''\<rparr>"
    "st_schedule scheduledTriggerProps = Some \<lparr>expressionString = ''cron(0 12 * * ? *)''\<rparr>"
    by (simp_all add: scheduledProps_def scheduledTriggerProps_def)
  from scheduled_trigger_record [OF f, of scheduledProps "\<lambda>p. ''NoonD50EE54C''" scheduledTriggerProps]
    f a show ?thesis by simp
qed

section \<open>Event rules: declared anew, or found again\<close>

lemma onEvent_existing:
  "findExistingChild (nodeChildren this) i = Some c \<Longrightarrow>
     onEvent this i options = Inl (DuplicateDeclarationError i)"
  by (simp add: onEvent_def declareChild_def)

lemma onStateChange_existing:
  "findExistingChild (nodeChildren this) i = Some c \<Longrightarrow>
     onStateChange this i jobState options = Inl (DuplicateDeclarationError i)"
  by (simp add: onStateChange_def onEvent_existing)

lemma onEvent_fresh:
  assumes "findExistingChild (nodeChildren this) i = None"
  shows "\<exists>this' r0. onEvent this i options = Inr (this', i) \<and>
           findExistingChild (nodeChildren this') i = Some (Construct (EventsRule r0) [])"
  using assms
  by (simp add: onEvent_def declareChild_def Let_def findExistingChild_updateRule
        findExistingChild_append)

lemma onStateChange_fresh:
  assumes "findExistingChild (nodeChildren this) i = None"
  shows "\<exists>this' r0. onStateChange this i jobState options = Inr (this', i) \<and>
           findExistingChild (nodeChildren this') i
             = Some (Construct (EventsRule
                 (addEventPattern \<lparr>source = [], detailType = [],
                     detail = [(''state'', [[Lit jobState]])]\<rparr> r0)) [])"
proof -
  let ?o = "options\<lparr>opt_description :=
                (case opt_description options of
                   Some d \<Rightarrow> Some d
                 | None \<Rightarrow>
                     Some ([Lit ''Rule triggered when Glue job ''] @ jobName this
                             @ [Lit ('' is in '' @ jobState @ '' state'')]))\<rparr>"
  from onEvent_fresh [OF assms, of ?o] obtain this1 r0 where
    h: "onEvent this i ?o = Inr (this1, i)"
       "findExistingChild (nodeChildren this1) i = Some (Construct (EventsRule r0) [])"
    by blast
  show ?thesis
    by (simp add: onStateChange_def h findExistingChild_updateRule) blast
qed

lemma onStateChange_Inr:
  assumes "onStateChange this i jobState options = Inr (this', r)"
  shows "r = i \<and> findExistingChild (nodeChildren this) i = None \<and>
         (\<exists>r0. findExistingChild (nodeChildren this') i
             = Some (Construct (EventsRule
                 (addEventPattern \<lparr>source = [], detailType = [],
                     detail = [(''state'', [[Lit jobState]])]\<rparr> r0)) []))"
proof (cases "findExistingChild (nodeChildren this) i")
  case None
  from onStateChange_fresh [OF None, of jobState options] assms show ?thesis
    using None by auto
next
  case (Some c)
  from onStateChange_existing [OF Some, of jobState options] assms show ?thesis by simp
qed

lemma metricJobStateRule_Inr:
  assumes "metricJobStateRule this i jobState = Inr (this', r)"
  shows "r = i \<and> findExistingChild (nodeChildren this') i \<noteq> None"
proof (cases "findExistingChild (nodeChildren this) i")
  case None
  with assms have "onStateChange this i jobState noOptions = Inr (this', r)"
    by (simp add: metricJobStateRule_def)
  from onStateChange_Inr [OF this] show ?thesis by auto
next
  case (Some c)
  with assms show ?thesis by (auto simp: metricJobStateRule_def)
qed

lemmas rule_eval =
  onSuccess_def onFailure_def onTimeout_def onStateChange_def onEvent_def metricJobStateRule_def
  declareChild_def findExistingChild_def updateRule_def Rule_new_def addTarget_def
  addEventPattern_def mergeEventPattern_def mergeValues_def noOptions_def exampleBase_def
  ruleAt_def Let_def

text \<open>
  C3, as the claim states it, fails: the first \<^verbatim>\<open>onSuccess\<close> under an identifier
  declares a rule, and the second \<^verbatim>\<open>onSuccess\<close> under the same identifier on the
  same trigger does not return that rule, it fails with the scope tree's
  \<^verbatim>\<open>DuplicateDeclarationError\<close>.
\<close>

theorem onSuccess_twice_counterexample:
  "\<not> isl (onSuccess exampleBase ''OnSuccess'' noOptions) \<and>
   onSuccess (fst (projr (onSuccess exampleBase ''OnSuccess'' noOptions))) ''OnSuccess'' noOptions
     = Inl (DuplicateDeclarationError ''OnSuccess'')"
  by (simp add: rule_eval)

text \<open>
  C3, amended. The rule a trigger holds under an identifier, whether
  \<^verbatim>\<open>metricJobStateRule\<close> or \<^verbatim>\<open>onStateChange\<close> put it there, is found again by
  \<^verbatim>\<open>metricJobStateRule\<close> under that identifier: the call returns the same rule and
  leaves the trigger as it is. \<^verbatim>\<open>onStateChange\<close>, \<^verbatim>\<open>onSuccess\<close>,
  \<^verbatim>\<open>onFailure\<close> and \<^verbatim>\<open>onTimeout\<close> under that identifier always declare a new
  rule, so they fail with \<^verbatim>\<open>DuplicateDeclarationError\<close>.
\<close>

theorem rule_found_again_by_metricJobStateRule_only:
  assumes "metricJobStateRule this i jobState = Inr (this', r) \<or>
           onStateChange this i jobState options = Inr (this', r)"
  shows "metricJobStateRule this' i jobState' = Inr (this', r) \<and>
         onStateChange this' i jobState' options' = Inl (DuplicateDeclarationError i) \<and>
         onSuccess this' i options' = Inl (DuplicateDeclarationError i) \<and>
         onFailure this' i options' = Inl (DuplicateDeclarationError i) \<and>
         onTimeout this' i options' = Inl (DuplicateDeclarationError i)"
proof -
  from assms have "r = i \<and> findExistingChild (nodeChildren this') i \<noteq> None"
  proof
    assume "metricJobStateRule this i jobState = Inr (this', r)"
    from metricJobStateRule_Inr [OF this] show ?thesis .
  next
    assume "onStateChange this i jobState options = Inr (this', r)"
    from onStateChange_Inr [OF this] show ?thesis by auto
  qed
  then obtain c where "r = i" and c: "findExistingChild (nodeChildren this') i = Some c"
    by auto
  then show ?thesis
    by (simp add: metricJobStateRule_def onSuccess_def onFailure_def onTimeout_def
          onStateChange_existing [OF c])
qed

theorem rule_found_again_by_metricJobStateRule_only_witness:
  "(\<exists>this' r.
      metricJobStateRule exampleBase ''SuccessMetricRule'' (triggerState_token SUCCEEDED)
        = Inr (this', r) \<and>
      metricJobStateRule this' ''SuccessMetricRule'' (triggerState_token SUCCEEDED)
        = Inr (this', r) \<and>
      onSuccess this' ''SuccessMetricRule'' noOptions
        = Inl (DuplicateDeclarationError ''SuccessMetricRule'')) \<and>
   (\<exists>this' r.
      onStateChange exampleBase ''OnFailure'' (triggerState_token FAILED) noOptions
        = Inr (this', r) \<and>
      metricJobStateRule this' ''OnFailure'' (triggerState_token FAILED) = Inr (this', r) \<and>
      onFailure this' ''OnFailure'' noOptions = Inl (DuplicateDeclarationError ''OnFailure''))"
proof -
  obtain this1 r1 where h1:
    "metricJobStateRule exampleBase ''SuccessMetricRule'' (triggerState_token SUCCEEDED)
       = Inr (this1, r1)"
    by (simp add: rule_eval)
  obtain this2 r2 where h2:
    "onStateChange exampleBase ''OnFailure'' (triggerState_token FAILED) noOptions
       = Inr (this2, r2)"
    by (simp add: rule_eval)
  from rule_found_again_by_metricJobStateRule_only [OF disjI1 [OF h1]]
       rule_found_again_by_metricJobStateRule_only [OF disjI2 [OF h2]] h1 h2
  show ?thesis by blast
qed

section \<open>The tokens of the trigger states\<close>

lemma map_of_map_update:
  "map_of d k = Some old \<Longrightarrow>
     map_of (map (\<lambda>(k', vs'). if k' = k then (k', g vs') else (k', vs')) d) k = Some (g old)"
  by (induction d) (auto split: if_splits)

lemma mergeDetail_single:
  "\<exists>vs. map_of (mergeDetail d [(k, [v])]) k = Some vs \<and> v \<in> set vs"
  by (cases "map_of d k") (auto simp: map_of_map_update mergeValues_def map_add_def)

text \<open>
  C10. The token of \<^verbatim>\<open>TriggerState.ACTIVATED\<close> is \<^verbatim>\<open>' ACTIVATED'\<close>, its variant
  name after a space; the token of every other variant is its variant name. A rule that
  \<^verbatim>\<open>onStateChange\<close> builds for the token of \<^verbatim>\<open>ACTIVATED\<close> therefore matches, among the
  \<^verbatim>\<open>state\<close> values of its pattern, the token with the space.
\<close>

theorem TriggerState_ACTIVATED_token:
  "TriggerState_token ACTIVATED = '' ACTIVATED'' \<and>
   TriggerState_token ACTIVATED = CHR '' '' # TriggerState_variant ACTIVATED \<and>
   (\<forall>s. s \<noteq> ACTIVATED \<longrightarrow> TriggerState_token s = TriggerState_variant s) \<and>
   (\<forall>this i options this' r.
      onStateChange this i (TriggerState_token ACTIVATED) options = Inr (this', r) \<longrightarrow>
      (\<exists>rule vs. ruleAt this' r = Some rule \<and>
         map_of (detail (rule_eventPattern rule)) ''state'' = Some vs \<and>
         [Lit '' ACTIVATED''] \<in> set vs))"
proof (intro conjI allI impI)
  fix s :: TriggerState
  assume "s \<noteq> ACTIVATED"
  then show "TriggerState_token s = TriggerState_variant s" by (cases s) simp_all
next
  fix this i options this' r
  assume "onStateChange this i (TriggerState_token ACTIVATED) options = Inr (this', r)"
  from onStateChange_Inr [OF this] obtain r0 where "r = i"
    and c: "findExistingChild (nodeChildren this') i
             = Some (Construct (EventsRule
                 (addEventPattern \<lparr>source = [], detailType = [],
                     detail = [(''state'', [[Lit '' ACTIVATED'']])]\<rparr> r0)) [])"
    by auto
  from mergeDetail_single [of "detail (rule_eventPattern r0)" "''state''" "[Lit '' ACTIVATED'']"]
  show "\<exists>rule vs. ruleAt this' r = Some rule \<and>
         map_of (detail (rule_eventPattern rule)) ''state'' = Some vs \<and>
         [Lit '' ACTIVATED''] \<in> set vs"
    by (simp add: ruleAt_def \<open>r = i\<close> c addEventPattern_def mergeEventPattern_def)
qed simp_all

theorem TriggerState_ACTIVATED_token_witness:
  "CREATED \<noteq> ACTIVATED \<and> TriggerState_token CREATED = TriggerState_variant CREATED \<and>
   (\<exists>this' r rule vs.
      onStateChange exampleBase ''OnActivated'' (TriggerState_token ACTIVATED) noOptions
        = Inr (this', r) \<and>
      ruleAt this' r = Some rule \<and>
      map_of (detail (rule_eventPattern rule)) ''state'' = Some vs \<and>
      [Lit '' ACTIVATED''] \<in> set vs)"
proof -
  obtain this' r where h:
    "onStateChange exampleBase ''OnActivated'' (TriggerState_token ACTIVATED) noOptions
       = Inr (this', r)"
    by (simp add: rule_eval)
  have d: "CREATED \<noteq> ACTIVATED" by simp
  from TriggerState_ACTIVATED_token h d show ?thesis by blast
qed

section \<open>The ARN of a trigger\<close>

lemma resolveDeferred_formatArn:
  "resolveDeferred env (formatArn c) =
     ''arn:'' @ env ''AWS::Partition'' @ '':'' @ service c @ '':'' @ env ''AWS::Region''
       @ '':'' @ env ''AWS::AccountId'' @ '':'' @ resource c @ ''/''
       @ resolveDeferred env (resourceName c)"
  by (simp add: resolveDeferred_def formatArn_def)

text \<open>
  In \<^verbatim>\<open>lib/trigger.ts\<close> the ARN of every trigger the constructor returns is the
  template over the trigger's own name, with the resource type \<^verbatim>\<open>trigger\<close>; nothing
  else of the props enters it.
\<close>

lemma Trigger_triggerArn_template:
  assumes "Trigger_new allocateLogicalId sc i props = Inr (sc', t)"
  shows "this_triggerArn t =
           formatArn \<lparr>service = ''glue'', resource = ''trigger'',
                      resourceName = this_triggerName t\<rparr>"
    and "resolveDeferred env (this_triggerArn t) =
           ''arn:'' @ env ''AWS::Partition'' @ '':glue:'' @ env ''AWS::Region'' @ '':''
             @ env ''AWS::AccountId'' @ '':trigger/'' @ resolveDeferred env (this_triggerName t)"
proof -
  from assms obtain cs
    where body: "Trigger_body allocateLogicalId (scopePath sc @ [i]) props = Inr (cs, t)"
    by (auto simp: Trigger_new_Inr)
  from Trigger_body_Inr [OF body]
  have arn: "this_triggerArn t = triggeerArn (this_triggerName t)" by blast
  then show "this_triggerArn t =
           formatArn \<lparr>service = ''glue'', resource = ''trigger'',
                      resourceName = this_triggerName t\<rparr>"
    by (simp add: triggeerArn_def)
  show "resolveDeferred env (this_triggerArn t) =
           ''arn:'' @ env ''AWS::Partition'' @ '':glue:'' @ env ''AWS::Region'' @ '':''
             @ env ''AWS::AccountId'' @ '':trigger/'' @ resolveDeferred env (this_triggerName t)"
    by (simp add: arn triggeerArn_def resolveDeferred_formatArn)
qed

lemma ScheduledTrigger_triggerArn_template:
  assumes "ScheduledTrigger_new allocateLogicalId sc i props = Inr (sc', t)"
  shows "st_this_triggerArn t = triggeerArn (st_this_triggerName t)"
  using assms
  by (auto simp: ScheduledTrigger_new_def Let_def split: sum.splits)

lemma Trigger_triggerName_reference:
  assumes "Trigger_new allocateLogicalId sc i props = Inr (sc', t)"
  shows "this_triggerName t = [Ref (allocateLogicalId (scopePath sc @ [i, ''Resource'']))]"
proof -
  from assms obtain cs
    where body: "Trigger_body allocateLogicalId (scopePath sc @ [i]) props = Inr (cs, t)"
    by (auto simp: Trigger_new_Inr)
  from Trigger_body_Inr [OF body] show ?thesis by auto
qed

text \<open>
  C1. The ARN of every trigger the constructor of \<^verbatim>\<open>lib/trigger.ts\<close> returns is
  the template \<^verbatim>\<open>arn:{partition}:glue:{region}:{account}:trigger/{name}\<close>: the
  literal pieces, the references to the partition, the region and the account, and the
  trigger's own deferred name, so that it resolves to exactly that string in every
  environment. No other input enters it: whatever props a trigger is built from, under
  the same identifier of the same scope its ARN is the same. The ARN of a
  \<^verbatim>\<open>ScheduledTrigger\<close> of \<^verbatim>\<open>part_001\<close> is the same template over its name.
\<close>

theorem triggerArn_from_template:
  "(Trigger_new allocateLogicalId sc i props = Inr (sc', t) \<longrightarrow>
      this_triggerArn t =
        [Lit ''arn:'', Ref ''AWS::Partition'', Lit '':glue:'', Ref ''AWS::Region'', Lit '':'',
         Ref ''AWS::AccountId'', Lit '':trigger/''] @ this_triggerName t \<and>
      resolveDeferred env (this_triggerArn t) =
        ''arn:'' @ env ''AWS::Partition'' @ '':glue:'' @ env ''AWS::Region'' @ '':''
          @ env ''AWS::AccountId'' @ '':trigger/'' @ resolveDeferred env (this_triggerName t) \<and>
      (\<forall>props2 sc2 t2.
         Trigger_new allocateLogicalId sc i props2 = Inr (sc2, t2) \<longrightarrow>
         this_triggerArn t2 = this_triggerArn t)) \<and>
   (ScheduledTrigger_new allocateLogicalId sc i sprops = Inr (sc'', st) \<longrightarrow>
      st_this_triggerArn st =
        [Lit ''arn:'', Ref ''AWS::Partition'', Lit '':glue:'', Ref ''AWS::Region'', Lit '':'',
         Ref ''AWS::AccountId'', Lit '':trigger/''] @ st_this_triggerName st \<and>
      resolveDeferred env (st_this_triggerArn st) =
        ''arn:'' @ env ''AWS::Partition'' @ '':glue:'' @ env ''AWS::Region'' @ '':''
          @ env ''AWS::AccountId'' @ '':trigger/'' @ resolveDeferred env (st_this_triggerName st))"
proof (intro conjI impI allI)
  assume h: "Trigger_new allocateLogicalId sc i props = Inr (sc', t)"
  from Trigger_triggerArn_template(1) [OF h]
  show "this_triggerArn t =
        [Lit ''arn:'', Ref ''AWS::Partition'', Lit '':glue:'', Ref ''AWS::Region'', Lit '':'',
         Ref ''AWS::AccountId'', Lit '':trigger/''] @ this_triggerName t"
    by (simp add: formatArn_def)
  from Trigger_triggerArn_template(2) [OF h]
  show "resolveDeferred env (this_triggerArn t) =
        ''arn:'' @ env ''AWS::Partition'' @ '':glue:'' @ env ''AWS::Region'' @ '':''
          @ env ''AWS::AccountId'' @ '':trigger/'' @ resolveDeferred env (this_triggerName t)" .
  fix props2 sc2 t2
  assume h2: "Trigger_new allocateLogicalId sc i props2 = Inr (sc2, t2)"
  from Trigger_triggerName_reference [OF h] Trigger_triggerName_reference [OF h2]
  have "this_triggerName t2 = this_triggerName t" by simp
  with Trigger_triggerArn_template(1) [OF h] Trigger_triggerArn_template(1) [OF h2]
  show "this_triggerArn t2 = this_triggerArn t" by simp
next
  assume h: "ScheduledTrigger_new allocateLogicalId sc i sprops = Inr (sc'', st)"
  from ScheduledTrigger_triggerArn_template [OF h]
  show "st_this_triggerArn st =
        [Lit ''arn:'', Ref ''AWS::Partition'', Lit '':glue:'', Ref ''AWS::Region'', Lit '':'',
         Ref ''AWS::AccountId'', Lit '':trigger/''] @ st_this_triggerName st"
    by (simp add: triggeerArn_def formatArn_def)
  from ScheduledTrigger_triggerArn_template [OF h]
  show "resolveDeferred env (st_this_triggerArn st) =
        ''arn:'' @ env ''AWS::Partition'' @ '':glue:'' @ env ''AWS::Region'' @ '':''
          @ env ''AWS::AccountId'' @ '':trigger/'' @ resolveDeferred env (st_this_triggerName st)"
    by (simp add: triggeerArn_def resolveDeferred_formatArn)
qed

theorem triggerArn_from_template_witness:
  "(\<exists>sc' t.
      Trigger_new (\<lambda>p. ''TriggerD50EE54C'') stack ''Trigger'' scheduledProps = Inr (sc', t) \<and>
      this_triggerName t = [Ref ''TriggerD50EE54C''] \<and>
      this_triggerArn t =
        [Lit ''arn:'', Ref ''AWS::Partition'', Lit '':glue:'', Ref ''AWS::Region'', Lit '':'',
         Ref ''AWS::AccountId'', Lit '':trigger/'', Ref ''TriggerD50EE54C''] \<and>
      resolveDeferred scenarioEnv (this_triggerArn t) =
        ''arn:aws:glue:us-east-1:123456789012:trigger/TriggerD50EE54C'' \<and>
      (\<exists>sc2 t2.
         Trigger_new (\<lambda>p. ''TriggerD50EE54C'') stack ''Trigger''
           (scheduledProps\<lparr>triggerName := Some ''test-trigger'',
                           role := Some (ImportedRole ''GlueRole'')\<rparr>) = Inr (sc2, t2) \<and>
         this_triggerArn t2 = this_triggerArn t)) \<and>
   (\<exists>sc' st.
      ScheduledTrigger_new (\<lambda>p. ''TriggerD50EE54C'') stack ''Trigger'' scheduledTriggerProps
        = Inr (sc', st) \<and>
      resolveDeferred scenarioEnv (st_this_triggerArn st) =
        ''arn:aws:glue:us-east-1:123456789012:trigger/TriggerD50EE54C'')"
proof -
  obtain sc1 t1 where h1:
    "Trigger_new (\<lambda>p. ''TriggerD50EE54C'') stack ''Trigger'' scheduledProps = Inr (sc1, t1)"
    by (simp add: Trigger_eval)
  obtain sc2 t2 where h2:
    "Trigger_new (\<lambda>p. ''TriggerD50EE54C'') stack ''Trigger''
       (scheduledProps\<lparr>triggerName := Some ''test-trigger'',
                       role := Some (ImportedRole ''GlueRole'')\<rparr>) = Inr (sc2, t2)"
    by (simp add: Trigger_eval)
  obtain sc3 st where h3:
    "ScheduledTrigger_new (\<lambda>p. ''TriggerD50EE54C'') stack ''Trigger'' scheduledTriggerProps
       = Inr (sc3, st)"
    by (simp add: ScheduledTrigger_new_def declareChild_def findExistingChild_def stack_def
          Let_def)
  have n1: "this_triggerName t1 = [Ref ''TriggerD50EE54C'']"
    using Trigger_triggerName_reference [OF h1] by simp
  have n3: "st_this_triggerName st = [Ref ''TriggerD50EE54C'']"
    using h3
    by (auto simp: ScheduledTrigger_new_def getResourceNameAttribute_def Let_def
          split: sum.splits)
  note T = triggerArn_from_template
             [of "\<lambda>p. ''TriggerD50EE54C''" stack "''Trigger''" scheduledProps sc1 t1 scenarioEnv
                 scheduledTriggerProps sc3 st]
  from T h1 h2 h3 n1 n3 show ?thesis
    by (auto simp: resolveDeferred_def scenarioEnv_def)
qed

section \<open>Construction from the props of the test suite\<close>

lemma Trigger_new_without_schedule:
  assumes "findExistingChild (scopeChildren sc) i = None" and "schedule props = None"
  shows "Trigger_new allocateLogicalId sc i props = Inl (TypeError ''expressionString'')"
  using assms
  by (simp add: Trigger_new_def Trigger_body_def Trigger_role_def Trigger_cfnProps_def
        declareChild_def findExistingChild_def split: option.splits)

text \<open>
  With a schedule added to the props of the test suite, the constructor emits the
  record of the scenario (but for its schedule) and the ARN resolves as the spec says.
\<close>

lemma Trigger_new_defaultProps_with_schedule:
  "\<exists>sc' t.
     Trigger_new (\<lambda>p. ''TriggerD50EE54C'') stack ''Trigger''
       (defaultProps\<lparr>schedule := Some \<lparr>expressionString = e\<rparr>\<rparr>) = Inr (sc', t) \<and>
     emittedRecord sc' ''Trigger'' =
       Some \<lparr>cfn_workflowName = Some '''', cfn_tags = None, cfn_startOnCreation = None,
             cfn_schedule = Some e, cfn_predicate = None, cfn_name = None, cfn_actions = [],
             cfn_description = None, cfn_type = ''ON_DEMAND''\<rparr> \<and>
     this_triggerName t = [Ref ''TriggerD50EE54C''] \<and>
     resolveDeferred scenarioEnv (this_triggerArn t) =
       ''arn:aws:glue:us-east-1:123456789012:trigger/TriggerD50EE54C''"
  by (simp add: Trigger_eval resolveDeferred_def scenarioEnv_def glueServiceRole_def map_add_def)

text \<open>
  The \<^verbatim>\<open>ScheduledTrigger\<close> of \<^verbatim>\<open>part_001\<close> reads the schedule with \<^verbatim>\<open>?.\<close>:
  without a schedule it is built all the same, and the record has no schedule.
\<close>

lemma ScheduledTrigger_new_without_schedule:
  assumes "findExistingChild (scopeChildren sc) i = None" and "st_schedule props = None"
  shows "\<exists>sc' t p. ScheduledTrigger_new allocateLogicalId sc i props = Inr (sc', t) \<and>
           emittedRecord sc' i = Some p \<and> cfn_schedule p = None"
  using ScheduledTrigger_new_emits [OF assms(1), of allocateLogicalId props] assms(2)
  by (auto simp: ScheduledTrigger_cfnProps_def)

text \<open>
  C2, at the props of the test suite (\<^verbatim>\<open>actions: []\<close>, an empty
  \<^verbatim>\<open>workflowName\<close>, the on-demand type, nothing else). The constructor of
  \<^verbatim>\<open>lib/trigger.ts\<close> does not return a trigger: reading
  \<^verbatim>\<open>props.schedule.expressionString\<close> throws.
\<close>

theorem Trigger_new_defaultProps_raises:
  "Trigger_new (\<lambda>p. ''TriggerD50EE54C'') stack ''Trigger'' defaultProps
     = Inl (TypeError ''expressionString'')"
  by (simp add: Trigger_eval glueServiceRole_def)

section \<open>The trigger types\<close>

lemma TriggerType_UNIV: "(UNIV :: TriggerType set) = {Scheduled, JobEvents, onDemand, conditional}"
proof -
  have "x \<in> {Scheduled, JobEvents, onDemand, conditional}" for x :: TriggerType
    by (cases x) simp_all
  then show ?thesis by blast
qed

lemma TriggerType_enum_UNIV:
  "(UNIV :: TriggerType_enum set) = {SCHEDULED, EVENT, ON_DEMAND, CONDITIONAL}"
proof -
  have "x \<in> {SCHEDULED, EVENT, ON_DEMAND, CONDITIONAL}" for x :: TriggerType_enum
    by (cases x) simp_all
  then show ?thesis by blast
qed

text \<open>
  The enumeration of \<^verbatim>\<open>part_001\<close> has exactly four variants, and the token of each
  is its name.
\<close>

lemma TriggerType_enum_four_variants:
  "(UNIV :: TriggerType_enum set) = {SCHEDULED, EVENT, ON_DEMAND, CONDITIONAL}"
  "card (UNIV :: TriggerType_enum set) = 4"
  "TriggerType_enum_token v = TriggerType_enum_variant v"
  "map TriggerType_enum_token [SCHEDULED, EVENT, ON_DEMAND, CONDITIONAL]
     = [''SCHEDULED'', ''EVENT'', ''ON_DEMAND'', ''CONDITIONAL'']"
  by (simp_all add: TriggerType_enum_UNIV) (cases v; simp)

text \<open>
  C5, at the class of \<^verbatim>\<open>lib/trigger.ts\<close>. Its four instances carry
  \<^verbatim>\<open>SCHEDULED\<close>, \<^verbatim>\<open>JOB_EVENTS\<close>, \<^verbatim>\<open>ON_DEMAND\<close> and \<^verbatim>\<open>CONDITIONAL\<close>: the
  job-events instance carries \<^verbatim>\<open>JOB_EVENTS\<close>, and no instance carries the
  \<^verbatim>\<open>EVENT\<close> of the enumeration in \<^verbatim>\<open>part_001\<close>.
\<close>

theorem TriggerType_JobEvents_name:
  "map TriggerType_name [Scheduled, JobEvents, onDemand, conditional]
     = [''SCHEDULED'', ''JOB_EVENTS'', ''ON_DEMAND'', ''CONDITIONAL''] \<and>
   TriggerType_name JobEvents \<noteq> TriggerType_enum_token EVENT \<and>
   TriggerType_enum_token EVENT \<notin> range TriggerType_name"
  by (simp add: TriggerType_UNIV)

end
